theory Spec2Isabelle
  imports Complex_Main
begin

section \<open>The Lightning-qubit state vector: data model\<close>

text \<open>
  The class \<open>StateVectorLQubit<PrecisionT, Derived>\<close> is the bridge between the dynamic
  dispatcher and a storage class. It is embedded with these conventions.

  \<^item> \<open>PrecisionT\<close> is read as the real numbers and \<open>std::complex<PrecisionT>\<close> as the complex
    numbers: every statement below is about exact arithmetic, rounding is outside the model.
  \<^item> \<open>size_t\<close> values are natural numbers. The strides \<open>pow(2, num_qubits_ - (1 + wire))\<close>
    are only meaningful for \<open>wire < num_qubits_\<close> (otherwise the unsigned subtraction wraps and
    the conversion of the power to \<open>size_t\<close> is undefined), so every statement about
    \<open>probs\<close>, \<open>collapse\<close> and \<open>measure\<close> assumes \<open>wire < num_qubits\<close> and a buffer of
    \<open>2 ^ num_qubits\<close> amplitudes.
  \<^item> The amplitude buffer behind \<open>getData()\<close> is a list; a call that mutates it in place
    returns the new buffer. A call that can abort returns its outcome together with the
    buffer as it is when the call ends, so that "nothing was mutated" is a statement about
    the returned buffer.
\<close>

type_synonym buffer = "complex list"

text \<open>
  \<open>PL_ABORT\<close>, \<open>PL_ABORT_IF\<close> and \<open>PL_ABORT_IF_NOT\<close> throw an exception carrying the
  message; \<open>std::unordered_map::at\<close> throws \<open>std::out_of_range\<close>. The last two
  constructors are the error kinds the dispatcher's contract names.
\<close>

datatype error =
    LightningException string
  | std_out_of_range
  | UnknownOperation
  | InvalidArgument

type_synonym 'a outcome = "error + 'a"

text \<open>
  The enumerations of \<open>GateOperation.hpp\<close> and \<open>KernelType.hpp\<close>: an enumeration whose
  members this class never names is kept as its underlying integer; the two matrix
  families are named member by member in \<open>applyMatrix\<close> and \<open>applyControlledMatrix\<close>.
\<close>

datatype KernelType = KernelType nat
datatype GateOperation = GateOperation nat
datatype GeneratorOperation = GeneratorOperation nat
datatype ControlledGateOperation = ControlledGateOperation nat
datatype ControlledGeneratorOperation = ControlledGeneratorOperation nat
datatype MatrixOperation = SingleQubitOp | TwoQubitOp | MultiQubitOp
datatype ControlledMatrixOperation = NCSingleQubitOp | NCTwoQubitOp | NCMultiQubitOp

text \<open>
  What the class takes from the C++ standard library, as parameters: the machine epsilon
  of \<open>PrecisionT\<close>, the state a seeded \<open>std::mt19937_64\<close> starts from, and one draw of a
  \<open>std::discrete_distribution<int>\<close> built from a list of weights (the drawn index and the
  generator's next state).
\<close>

record 'g stdlib =
  epsilon :: real
  mt19937_64_seed :: "nat \<Rightarrow> 'g"
  discrete_distribution :: "real list \<Rightarrow> 'g \<Rightarrow> int \<times> 'g"

text \<open>
  The object: the qubit count of \<open>StateVectorBase\<close>, the buffer of the storage class
  (\<open>getData()\<close>, with \<open>getLength()\<close> its length), the random generator and the six kernel
  maps filled by \<open>setKernels\<close>.
\<close>

record 'g StateVectorLQubit =
  num_qubits :: nat
  data :: buffer
  rng :: 'g
  kernel_for_gates :: "GateOperation \<rightharpoonup> KernelType"
  kernel_for_generators :: "GeneratorOperation \<rightharpoonup> KernelType"
  kernel_for_matrices :: "MatrixOperation \<rightharpoonup> KernelType"
  kernel_for_controlled_gates :: "ControlledGateOperation \<rightharpoonup> KernelType"
  kernel_for_controlled_generators :: "ControlledGeneratorOperation \<rightharpoonup> KernelType"
  kernel_for_controlled_matrices :: "ControlledMatrixOperation \<rightharpoonup> KernelType"

definition getLength :: "'g StateVectorLQubit \<Rightarrow> nat" where
  "getLength sv = length (data sv)"

text \<open>\<open>kernel_for_..._.at(op)\<close>: the entry, or \<open>std::out_of_range\<close>.\<close>

definition map_at :: "('k \<rightharpoonup> 'v) \<Rightarrow> 'k \<Rightarrow> 'v outcome" where
  "map_at m k = (case m k of None \<Rightarrow> Inl std_out_of_range | Some v \<Rightarrow> Inr v)"

section \<open>Probabilities, collapse and normalisation\<close>

text \<open>\<open>std::norm\<close> of a complex number: the squared magnitude.\<close>

definition std_norm :: "complex \<Rightarrow> real" where
  "std_norm z = Re z * Re z + Im z * Im z"

text \<open>
  Modelled from the spec: \<open>Pennylane::Util::squaredNorm(arr, length)\<close>, which is not part
  of these sources. The spec calls its square root the Euclidean norm of the buffer: the sum
  of the squared magnitudes of the first \<open>length\<close> amplitudes.
\<close>

definition squaredNorm :: "buffer \<Rightarrow> nat \<Rightarrow> real" where
  "squaredNorm arr n = sum_list (map std_norm (take n arr))"

text \<open>
  \<open>probs(wire)\<close>: the two nested loops run over \<open>idx < half_section_size\<close> and
  \<open>ids < stride\<close> and add \<open>std::norm(arr[stride * 2 * idx + ids])\<close> to \<open>prob_0\<close>.
\<close>

definition probs :: "'g StateVectorLQubit \<Rightarrow> nat \<Rightarrow> real list" where
  "probs sv wire =
    (let arr = data sv;
         stride = (2::nat) ^ (num_qubits sv - (1 + wire));
         vec_size = (2::nat) ^ num_qubits sv;
         section_size = vec_size div stride;
         half_section_size = section_size div 2;
         prob_0 = fold (\<lambda>idx acc.
                    let offset = stride * 2 * idx
                    in fold (\<lambda>ids acc. acc + std_norm (arr ! (offset + ids))) [0..<stride] acc)
                  [0..<half_section_size] 0
     in [prob_0, 1 - prob_0])"

text \<open>\<open>normalize()\<close>: one pass multiplying by the reciprocal of the norm, behind the guard.\<close>

definition normalize :: "'g stdlib \<Rightarrow> 'g StateVectorLQubit \<Rightarrow> 'g StateVectorLQubit" where
  "normalize lib sv =
    (let arr = data sv;
         norm = sqrt (squaredNorm arr (getLength sv))
     in if norm > epsilon lib * 100
        then let inv_norm = complex_of_real (1 / norm)
             in sv\<lparr>data := fold (\<lambda>k a. a[k := a ! k * inv_norm]) [0..<getLength sv] arr\<rparr>
        else sv)"

text \<open>
  \<open>collapse(wire, branch)\<close>: \<open>k = branch ? 0 : 1\<close> selects the blocks to clear, the loops
  write \<open>{0., 0.}\<close> at \<open>stride * (k + 2 * idx) + ids\<close>, then \<open>normalize()\<close> runs.
\<close>

definition collapse ::
  "'g stdlib \<Rightarrow> nat \<Rightarrow> bool \<Rightarrow> 'g StateVectorLQubit \<Rightarrow> 'g StateVectorLQubit" where
  "collapse lib wire branch sv =
    (let arr = data sv;
         stride = (2::nat) ^ (num_qubits sv - (1 + wire));
         vec_size = (2::nat) ^ num_qubits sv;
         section_size = vec_size div stride;
         half_section_size = section_size div 2;
         k = (if branch then 0 else 1);
         arr' = fold (\<lambda>idx a.
                  let offset = stride * (k + 2 * idx)
                  in fold (\<lambda>ids a. a[offset + ids := 0]) [0..<stride] a)
                [0..<half_section_size] arr
     in normalize lib (sv\<lparr>data := arr'\<rparr>))"

text \<open>
  The label of an index under the stride partition of a wire: indices come in blocks of
  \<open>2 ^ (num_qubits - 1 - wire)\<close> consecutive positions, labelled 0, 1, 0, 1, ...
\<close>

definition wire_bit :: "nat \<Rightarrow> nat \<Rightarrow> nat \<Rightarrow> nat" where
  "wire_bit n wire i = (i div 2 ^ (n - 1 - wire)) mod 2"


text \<open>The buffer with every amplitude whose label differs from \<open>b\<close> replaced by zero.\<close>

definition keep_branch :: "nat \<Rightarrow> nat \<Rightarrow> nat \<Rightarrow> buffer \<Rightarrow> buffer" where
  "keep_branch n wire b arr =
     map (\<lambda>i. if wire_bit n wire i = b then arr ! i else 0) [0..<2 ^ n]"


section \<open>The dynamic dispatcher\<close>

text \<open>
  \<open>DynamicDispatcher<PrecisionT>\<close> is a singleton defined outside these sources. Its
  registered tables are parameters: the name tables, and per family the kernel functions,
  each of which receives the buffer and returns what it did (a kernel may abort).
\<close>

type_synonym 'a kernel_call = "buffer \<Rightarrow> 'a outcome \<times> buffer"

record DynamicDispatcher =
  str_to_gates :: "string \<rightharpoonup> GateOperation"
  str_to_controlled_gates :: "string \<rightharpoonup> ControlledGateOperation"
  str_to_generators :: "string \<rightharpoonup> GeneratorOperation"
  str_to_controlled_generators :: "string \<rightharpoonup> ControlledGeneratorOperation"
  gate_kernels ::
    "KernelType \<Rightarrow> GateOperation \<Rightarrow> nat \<Rightarrow> nat list \<Rightarrow> bool \<Rightarrow> real list \<Rightarrow> unit kernel_call"
  generator_kernels ::
    "KernelType \<Rightarrow> GeneratorOperation \<Rightarrow> nat \<Rightarrow> nat list \<Rightarrow> bool \<Rightarrow> real kernel_call"
  matrix_kernels ::
    "KernelType \<Rightarrow> nat \<Rightarrow> complex list \<Rightarrow> nat list \<Rightarrow> bool \<Rightarrow> unit kernel_call"
  controlled_gate_kernels ::
    "KernelType \<Rightarrow> ControlledGateOperation \<Rightarrow> nat \<Rightarrow> nat list \<Rightarrow> bool list \<Rightarrow> nat list \<Rightarrow>
     bool \<Rightarrow> real list \<Rightarrow> unit kernel_call"
  controlled_generator_kernels ::
    "KernelType \<Rightarrow> ControlledGeneratorOperation \<Rightarrow> nat \<Rightarrow> nat list \<Rightarrow> bool list \<Rightarrow> nat list \<Rightarrow>
     bool \<Rightarrow> real kernel_call"
  controlled_matrix_kernels ::
    "KernelType \<Rightarrow> nat \<Rightarrow> complex list \<Rightarrow> nat list \<Rightarrow> bool list \<Rightarrow> nat list \<Rightarrow> bool \<Rightarrow>
     unit kernel_call"

text \<open>
  Modelled from the spec: the name resolution of \<open>DynamicDispatcher\<close> (\<open>strToGateOp\<close>,
  \<open>strToControlledGateOp\<close>, \<open>strToGeneratorOp\<close>, \<open>strToControlledGeneratorOp\<close>,
  \<open>hasGateOp\<close>), not part of these sources. The spec: names are resolved through a
  bidirectional static table and an unknown name fails with \<open>UnknownOperation\<close>.
\<close>

definition resolve :: "(string \<rightharpoonup> 'op) \<Rightarrow> string \<Rightarrow> 'op outcome" where
  "resolve table opName = (case table opName of None \<Rightarrow> Inl UnknownOperation | Some op \<Rightarrow> Inr op)"

definition strToGateOp :: "DynamicDispatcher \<Rightarrow> string \<Rightarrow> GateOperation outcome" where
  "strToGateOp d = resolve (str_to_gates d)"

definition strToControlledGateOp ::
  "DynamicDispatcher \<Rightarrow> string \<Rightarrow> ControlledGateOperation outcome" where
  "strToControlledGateOp d = resolve (str_to_controlled_gates d)"

definition strToGeneratorOp :: "DynamicDispatcher \<Rightarrow> string \<Rightarrow> GeneratorOperation outcome" where
  "strToGeneratorOp d = resolve (str_to_generators d)"


definition hasGateOp :: "DynamicDispatcher \<Rightarrow> string \<Rightarrow> bool" where
  "hasGateOp d opName = (str_to_gates d opName \<noteq> None)"

text \<open>
  Modelled from the spec: the application functions of \<open>DynamicDispatcher\<close>
  (\<open>applyOperation\<close> by identifier and by name, \<open>applyGenerator\<close>, \<open>applyMatrix\<close> and the
  controlled variants), not part of these sources. The spec: the dispatcher invokes the
  kernel function of the given kernel on the raw buffer and passes the generator's scalar
  through; for the controlled variants \<open>controlWires.size() == controlValues.size()\<close> is a
  precondition whose violation fails with \<open>InvalidArgument\<close> before any mutation.
\<close>

definition dispatcher_applyOperation ::
  "DynamicDispatcher \<Rightarrow> KernelType \<Rightarrow> buffer \<Rightarrow> nat \<Rightarrow> GateOperation \<Rightarrow> nat list \<Rightarrow> bool \<Rightarrow>
   real list \<Rightarrow> unit outcome \<times> buffer" where
  "dispatcher_applyOperation d kern arr nq gate_op wires inverse' params =
     gate_kernels d kern gate_op nq wires inverse' params arr"

definition dispatcher_applyOperation_name ::
  "DynamicDispatcher \<Rightarrow> KernelType \<Rightarrow> buffer \<Rightarrow> nat \<Rightarrow> string \<Rightarrow> nat list \<Rightarrow> bool \<Rightarrow>
   real list \<Rightarrow> unit outcome \<times> buffer" where
  "dispatcher_applyOperation_name d kern arr nq opName wires inverse' params =
     (case strToGateOp d opName of
        Inl e \<Rightarrow> (Inl e, arr)
      | Inr gate_op \<Rightarrow> dispatcher_applyOperation d kern arr nq gate_op wires inverse' params)"

definition dispatcher_applyControlledGate ::
  "DynamicDispatcher \<Rightarrow> KernelType \<Rightarrow> buffer \<Rightarrow> nat \<Rightarrow> string \<Rightarrow> nat list \<Rightarrow> bool list \<Rightarrow>
   nat list \<Rightarrow> bool \<Rightarrow> real list \<Rightarrow> unit outcome \<times> buffer" where
  "dispatcher_applyControlledGate d kern arr nq opName controlled_wires controlled_values
       wires inverse' params =
     (if length controlled_wires \<noteq> length controlled_values then (Inl InvalidArgument, arr)
      else case strToControlledGateOp d opName of
             Inl e \<Rightarrow> (Inl e, arr)
           | Inr gate_op \<Rightarrow>
               controlled_gate_kernels d kern gate_op nq controlled_wires controlled_values
                 wires inverse' params arr)"

definition dispatcher_applyGenerator ::
  "DynamicDispatcher \<Rightarrow> KernelType \<Rightarrow> buffer \<Rightarrow> nat \<Rightarrow> string \<Rightarrow> nat list \<Rightarrow> bool \<Rightarrow>
   real outcome \<times> buffer" where
  "dispatcher_applyGenerator d kern arr nq opName wires adj =
     (case strToGeneratorOp d opName of
        Inl e \<Rightarrow> (Inl e, arr)
      | Inr gen_op \<Rightarrow> generator_kernels d kern gen_op nq wires adj arr)"


definition dispatcher_applyMatrix ::
  "DynamicDispatcher \<Rightarrow> KernelType \<Rightarrow> buffer \<Rightarrow> nat \<Rightarrow> complex list \<Rightarrow> nat list \<Rightarrow> bool \<Rightarrow>
   unit outcome \<times> buffer" where
  "dispatcher_applyMatrix d kern arr nq matrix wires inverse' =
     matrix_kernels d kern nq matrix wires inverse' arr"

definition dispatcher_applyControlledMatrix ::
  "DynamicDispatcher \<Rightarrow> KernelType \<Rightarrow> buffer \<Rightarrow> nat \<Rightarrow> complex list \<Rightarrow> nat list \<Rightarrow> bool list \<Rightarrow>
   nat list \<Rightarrow> bool \<Rightarrow> unit outcome \<times> buffer" where
  "dispatcher_applyControlledMatrix d kern arr nq matrix controlled_wires controlled_values
       wires inverse' =
     (if length controlled_wires \<noteq> length controlled_values then (Inl InvalidArgument, arr)
      else controlled_matrix_kernels d kern nq matrix controlled_wires controlled_values
             wires inverse' arr)"

section \<open>Applying operations, generators and matrices\<close>

text \<open>The messages of the aborts raised by the class itself.\<close>

definition msg_controlled_size :: string where
  "msg_controlled_size = ''`controlled_wires` must have the same size as `controlled_values`.''"

definition msg_no_wires :: string where
  "msg_no_wires = ''Number of wires must be larger than 0''"

definition msg_matrix_size :: string where
  "msg_matrix_size = ''The size of matrix does not match with the given number of wires''"

text \<open>
  Modelled from the spec: \<open>Pennylane::Util::exp2\<close>, not part of these sources. The spec
  gives the matrix of \<open>|wires|\<close> wires the side \<open>2^|wires|\<close>, so \<open>exp2(2 * |wires|)\<close> is
  the power of two.
\<close>

definition exp2 :: "nat \<Rightarrow> nat" where
  "exp2 n = 2 ^ n"

text \<open>
  A call into the dispatcher on \<open>this->getData()\<close>: the kernel works on the buffer in
  place, the object holds whatever the call leaves there.
\<close>

definition on_data ::
  "'a kernel_call \<Rightarrow> 'g StateVectorLQubit \<Rightarrow> 'a outcome \<times> 'g StateVectorLQubit" where
  "on_data call sv = (case call (data sv) of (r, arr) \<Rightarrow> (r, sv\<lparr>data := arr\<rparr>))"

text \<open>\<open>applyOperation(kernel, opName, wires, inverse, params)\<close>.\<close>

definition applyOperation_kernel ::
  "DynamicDispatcher \<Rightarrow> KernelType \<Rightarrow> string \<Rightarrow> nat list \<Rightarrow> bool \<Rightarrow> real list \<Rightarrow>
   'g StateVectorLQubit \<Rightarrow> unit outcome \<times> 'g StateVectorLQubit" where
  "applyOperation_kernel d kern opName wires inverse' params sv =
     on_data (\<lambda>arr. dispatcher_applyOperation_name d kern arr (num_qubits sv) opName wires
                       inverse' params) sv"

text \<open>\<open>applyOperation(opName, wires, inverse, params)\<close>.\<close>

definition applyOperation ::
  "DynamicDispatcher \<Rightarrow> string \<Rightarrow> nat list \<Rightarrow> bool \<Rightarrow> real list \<Rightarrow>
   'g StateVectorLQubit \<Rightarrow> unit outcome \<times> 'g StateVectorLQubit" where
  "applyOperation d opName wires inverse' params sv =
     (case strToGateOp d opName of
        Inl e \<Rightarrow> (Inl e, sv)
      | Inr gate_op \<Rightarrow>
          (case map_at (kernel_for_gates sv) gate_op of
             Inl e \<Rightarrow> (Inl e, sv)
           | Inr kern \<Rightarrow>
               on_data (\<lambda>arr. dispatcher_applyOperation d kern arr (num_qubits sv) gate_op wires
                                 inverse' params) sv))"

text \<open>\<open>applyOperation(opName, controlled_wires, controlled_values, wires, inverse, params)\<close>.\<close>

definition applyOperation_controlled ::
  "DynamicDispatcher \<Rightarrow> string \<Rightarrow> nat list \<Rightarrow> bool list \<Rightarrow> nat list \<Rightarrow> bool \<Rightarrow> real list \<Rightarrow>
   'g StateVectorLQubit \<Rightarrow> unit outcome \<times> 'g StateVectorLQubit" where
  "applyOperation_controlled d opName controlled_wires controlled_values wires inverse' params sv =
     (if length controlled_wires \<noteq> length controlled_values
      then (Inl (LightningException msg_controlled_size), sv)
      else case strToControlledGateOp d opName of
        Inl e \<Rightarrow> (Inl e, sv)
      | Inr gate_op \<Rightarrow>
          (case map_at (kernel_for_controlled_gates sv) gate_op of
             Inl e \<Rightarrow> (Inl e, sv)
           | Inr kern \<Rightarrow>
               on_data (\<lambda>arr. dispatcher_applyControlledGate d kern arr (num_qubits sv) opName
                                 controlled_wires controlled_values wires inverse' params) sv))"


text \<open>
  \<open>applyMatrix(kernel, const ComplexT *matrix, wires, inverse)\<close>. A matrix passed as a
  pointer is the list of values readable there; the callee cannot see its size.
\<close>

definition applyMatrix_kernel ::
  "DynamicDispatcher \<Rightarrow> KernelType \<Rightarrow> complex list \<Rightarrow> nat list \<Rightarrow> bool \<Rightarrow>
   'g StateVectorLQubit \<Rightarrow> unit outcome \<times> 'g StateVectorLQubit" where
  "applyMatrix_kernel d kern matrix wires inverse' sv =
     (if wires = [] then (Inl (LightningException msg_no_wires), sv)
      else on_data (\<lambda>arr. dispatcher_applyMatrix d kern arr (num_qubits sv) matrix wires
                             inverse') sv)"

text \<open>\<open>applyMatrix(kernel, const std::vector<ComplexT> &matrix, wires, inverse)\<close>.\<close>

definition applyMatrix_kernel_vector ::
  "DynamicDispatcher \<Rightarrow> KernelType \<Rightarrow> complex list \<Rightarrow> nat list \<Rightarrow> bool \<Rightarrow>
   'g StateVectorLQubit \<Rightarrow> unit outcome \<times> 'g StateVectorLQubit" where
  "applyMatrix_kernel_vector d kern matrix wires inverse' sv =
     (if length matrix \<noteq> exp2 (2 * length wires)
      then (Inl (LightningException msg_matrix_size), sv)
      else applyMatrix_kernel d kern matrix wires inverse' sv)"

text \<open>\<open>applyMatrix(const ComplexT *matrix, wires, inverse)\<close>: the kernel by wire count.\<close>

definition applyMatrix ::
  "DynamicDispatcher \<Rightarrow> complex list \<Rightarrow> nat list \<Rightarrow> bool \<Rightarrow>
   'g StateVectorLQubit \<Rightarrow> unit outcome \<times> 'g StateVectorLQubit" where
  "applyMatrix d matrix wires inverse' sv =
     (if wires = [] then (Inl (LightningException msg_no_wires), sv)
      else let n_wires = length wires
           in case map_at (kernel_for_matrices sv)
                     (if n_wires = 1 then SingleQubitOp
                      else if n_wires = 2 then TwoQubitOp
                      else MultiQubitOp) of
                Inl e \<Rightarrow> (Inl e, sv)
              | Inr kern \<Rightarrow> applyMatrix_kernel d kern matrix wires inverse' sv)"

text \<open>\<open>applyMatrix(const std::vector<ComplexT, Alloc> &matrix, wires, inverse)\<close>.\<close>

definition applyMatrix_vector ::
  "DynamicDispatcher \<Rightarrow> complex list \<Rightarrow> nat list \<Rightarrow> bool \<Rightarrow>
   'g StateVectorLQubit \<Rightarrow> unit outcome \<times> 'g StateVectorLQubit" where
  "applyMatrix_vector d matrix wires inverse' sv =
     (if length matrix \<noteq> exp2 (2 * length wires)
      then (Inl (LightningException msg_matrix_size), sv)
      else applyMatrix d matrix wires inverse' sv)"

text \<open>\<open>applyOperation(opName, wires, inverse, params, matrix)\<close>.\<close>

definition applyOperation_matrix ::
  "DynamicDispatcher \<Rightarrow> string \<Rightarrow> nat list \<Rightarrow> bool \<Rightarrow> real list \<Rightarrow> complex list \<Rightarrow>
   'g StateVectorLQubit \<Rightarrow> unit outcome \<times> 'g StateVectorLQubit" where
  "applyOperation_matrix d opName wires inverse' params matrix sv =
     (if hasGateOp d opName then applyOperation d opName wires inverse' params sv
      else applyMatrix_vector d matrix wires inverse' sv)"

text \<open>
  \<open>applyOperation(opName, controlled_wires, controlled_values, wires, inverse, params,
  matrix)\<close>.
\<close>

definition applyOperation_controlled_matrix ::
  "DynamicDispatcher \<Rightarrow> string \<Rightarrow> nat list \<Rightarrow> bool list \<Rightarrow> nat list \<Rightarrow> bool \<Rightarrow> real list \<Rightarrow>
   complex list \<Rightarrow> 'g StateVectorLQubit \<Rightarrow> unit outcome \<times> 'g StateVectorLQubit" where
  "applyOperation_controlled_matrix d opName controlled_wires controlled_values wires inverse'
       params matrix sv =
     (if length controlled_wires \<noteq> length controlled_values
      then (Inl (LightningException msg_controlled_size), sv)
      else if controlled_wires \<noteq> []
      then applyOperation_controlled d opName controlled_wires controlled_values wires inverse'
             params sv
      else if hasGateOp d opName then applyOperation d opName wires inverse' params sv
      else applyMatrix_vector d matrix wires inverse' sv)"

text \<open>\<open>applyGenerator(kernel, opName, wires, adj)\<close>.\<close>

definition applyGenerator_kernel ::
  "DynamicDispatcher \<Rightarrow> KernelType \<Rightarrow> string \<Rightarrow> nat list \<Rightarrow> bool \<Rightarrow>
   'g StateVectorLQubit \<Rightarrow> real outcome \<times> 'g StateVectorLQubit" where
  "applyGenerator_kernel d kern opName wires adj sv =
     on_data (\<lambda>arr. dispatcher_applyGenerator d kern arr (num_qubits sv) opName wires adj) sv"

text \<open>\<open>applyGenerator(opName, wires, adj)\<close>.\<close>

definition applyGenerator ::
  "DynamicDispatcher \<Rightarrow> string \<Rightarrow> nat list \<Rightarrow> bool \<Rightarrow>
   'g StateVectorLQubit \<Rightarrow> real outcome \<times> 'g StateVectorLQubit" where
  "applyGenerator d opName wires adj sv =
     (case strToGeneratorOp d opName of
        Inl e \<Rightarrow> (Inl e, sv)
      | Inr gen_op \<Rightarrow>
          (case map_at (kernel_for_generators sv) gen_op of
             Inl e \<Rightarrow> (Inl e, sv)
           | Inr kern \<Rightarrow>
               on_data (\<lambda>arr. dispatcher_applyGenerator d kern arr (num_qubits sv) opName wires
                                 adj) sv))"


text \<open>
  \<open>applyControlledMatrix(const ComplexT *matrix, controlled_wires, controlled_values, wires,
  inverse)\<close>: the two aborts in the order of the source, then the kernel by wire count.
\<close>

definition applyControlledMatrix ::
  "DynamicDispatcher \<Rightarrow> complex list \<Rightarrow> nat list \<Rightarrow> bool list \<Rightarrow> nat list \<Rightarrow> bool \<Rightarrow>
   'g StateVectorLQubit \<Rightarrow> unit outcome \<times> 'g StateVectorLQubit" where
  "applyControlledMatrix d matrix controlled_wires controlled_values wires inverse' sv =
     (if wires = [] then (Inl (LightningException msg_no_wires), sv)
      else if length controlled_wires \<noteq> length controlled_values
      then (Inl (LightningException msg_controlled_size), sv)
      else let n_wires = length wires
           in case map_at (kernel_for_controlled_matrices sv)
                     (if n_wires = 1 then NCSingleQubitOp
                      else if n_wires = 2 then NCTwoQubitOp
                      else NCMultiQubitOp) of
                Inl e \<Rightarrow> (Inl e, sv)
              | Inr kern \<Rightarrow>
                  on_data (\<lambda>arr. dispatcher_applyControlledMatrix d kern arr (num_qubits sv)
                                    matrix controlled_wires controlled_values wires inverse') sv)"

text \<open>
  \<open>applyControlledMatrix(const std::vector<ComplexT> matrix, controlled_wires,
  controlled_values, wires, inverse)\<close>: forwards \<open>matrix.data()\<close>.
\<close>

definition applyControlledMatrix_vector ::
  "DynamicDispatcher \<Rightarrow> complex list \<Rightarrow> nat list \<Rightarrow> bool list \<Rightarrow> nat list \<Rightarrow> bool \<Rightarrow>
   'g StateVectorLQubit \<Rightarrow> unit outcome \<times> 'g StateVectorLQubit" where
  "applyControlledMatrix_vector d matrix controlled_wires controlled_values wires inverse' sv =
     applyControlledMatrix d matrix controlled_wires controlled_values wires inverse' sv"

section \<open>The Pauli generators\<close>

text \<open>
  \<open>PauliGenerator<GateImplementation>\<close>: the template parameter supplies the three Pauli
  kernels, which work on the buffer in place.
\<close>

record GateImplementation =
  applyPauliX :: "nat \<Rightarrow> nat list \<Rightarrow> bool \<Rightarrow> unit kernel_call"
  applyPauliY :: "nat \<Rightarrow> nat list \<Rightarrow> bool \<Rightarrow> unit kernel_call"
  applyPauliZ :: "nat \<Rightarrow> nat list \<Rightarrow> bool \<Rightarrow> unit kernel_call"

definition applyGeneratorRX ::
  "GateImplementation \<Rightarrow> buffer \<Rightarrow> nat \<Rightarrow> nat list \<Rightarrow> bool \<Rightarrow> real outcome \<times> buffer" where
  "applyGeneratorRX impl arr nq wires adj =
     (case applyPauliX impl nq wires adj arr of
        (Inl e, arr') \<Rightarrow> (Inl e, arr')
      | (Inr _, arr') \<Rightarrow> (Inr (- (1 / 2)), arr'))"

definition applyGeneratorRY ::
  "GateImplementation \<Rightarrow> buffer \<Rightarrow> nat \<Rightarrow> nat list \<Rightarrow> bool \<Rightarrow> real outcome \<times> buffer" where
  "applyGeneratorRY impl arr nq wires adj =
     (case applyPauliY impl nq wires adj arr of
        (Inl e, arr') \<Rightarrow> (Inl e, arr')
      | (Inr _, arr') \<Rightarrow> (Inr (- (1 / 2)), arr'))"

definition applyGeneratorRZ ::
  "GateImplementation \<Rightarrow> buffer \<Rightarrow> nat \<Rightarrow> nat list \<Rightarrow> bool \<Rightarrow> real outcome \<times> buffer" where
  "applyGeneratorRZ impl arr nq wires adj =
     (case applyPauliZ impl nq wires adj arr of
        (Inl e, arr') \<Rightarrow> (Inl e, arr')
      | (Inr _, arr') \<Rightarrow> (Inr (- (1 / 2)), arr'))"

section \<open>Measurement\<close>

text \<open>\<open>seed(seed)\<close> reseeds the generator of the object.\<close>

definition seed :: "'g stdlib \<Rightarrow> nat \<Rightarrow> 'g StateVectorLQubit \<Rightarrow> 'g StateVectorLQubit" where
  "seed lib v sv = sv\<lparr>rng := mt19937_64_seed lib v\<rparr>"

text \<open>
  \<open>random_sample(prob_0)\<close>: one draw of the distribution with weights
  \<open>{prob_0, 1. - prob_0}\<close>, which advances the generator.
\<close>

definition random_sample ::
  "'g stdlib \<Rightarrow> real \<Rightarrow> 'g StateVectorLQubit \<Rightarrow> int \<times> 'g StateVectorLQubit" where
  "random_sample lib prob_0 sv =
     (case discrete_distribution lib [prob_0, 1 - prob_0] (rng sv) of
        (x, g) \<Rightarrow> (x, sv\<lparr>rng := g\<rparr>))"

text \<open>
  Modelled from the spec: \<open>setBasisState(index)\<close>, pure virtual in this class and
  implemented by the storage class, which is not part of these sources. The spec: it must
  zero the buffer and set the amplitude at \<open>index\<close> to 1.
\<close>

definition setBasisState :: "nat \<Rightarrow> 'g StateVectorLQubit \<Rightarrow> 'g StateVectorLQubit" where
  "setBasisState index sv = sv\<lparr>data := (replicate (length (data sv)) 0)[index := 1]\<rparr>"

text \<open>
  \<open>measure(wire, postselect, reset)\<close>. The sample is an \<open>int\<close>; passed to \<open>collapse\<close> it
  becomes the \<open>bool\<close> \<open>sample != 0\<close>.
\<close>

definition measure ::
  "'g stdlib \<Rightarrow> DynamicDispatcher \<Rightarrow> nat \<Rightarrow> int \<Rightarrow> bool \<Rightarrow> 'g StateVectorLQubit \<Rightarrow>
   int outcome \<times> 'g StateVectorLQubit" where
  "measure lib d wire postselect reset sv =
     (let probs' = probs sv wire
      in case random_sample lib (probs' ! 0) sv of
        (sample, sv1) \<Rightarrow>
          if postselect \<noteq> - 1 \<and> postselect \<noteq> sample
          then let sv2 = setBasisState 0 sv1;
                   sv3 = sv2\<lparr>data := (data sv2)[0 := 0]\<rparr>
               in (Inr (- 1), sv3)
          else let sv2 = collapse lib wire (sample \<noteq> 0) sv1
               in if reset \<and> sample = 1
                  then (case applyOperation d ''PauliX'' [wire] False [] sv2 of
                          (Inl e, sv3) \<Rightarrow> (Inl e, sv3)
                        | (Inr _, sv3) \<Rightarrow> (Inr sample, sv3))
                  else (Inr sample, sv2))"

text \<open>
  A caller that measures the same wire \<open>n\<close> times in a row, keeping every outcome in
  order.
\<close>

fun measure_repeatedly ::
  "'g stdlib \<Rightarrow> DynamicDispatcher \<Rightarrow> nat \<Rightarrow> int \<Rightarrow> bool \<Rightarrow> nat \<Rightarrow> 'g StateVectorLQubit \<Rightarrow>
   int outcome list \<times> 'g StateVectorLQubit" where
  "measure_repeatedly lib d wire postselect reset 0 sv = ([], sv)"
| "measure_repeatedly lib d wire postselect reset (Suc n) sv =
     (case measure lib d wire postselect reset sv of
        (r, sv') \<Rightarrow>
          (case measure_repeatedly lib d wire postselect reset n sv' of
             (rs, sv'') \<Rightarrow> (r # rs, sv'')))"


section \<open>A concrete instance\<close>

text \<open>
  One instance of every parameter, on which the definitions can be evaluated: a small
  congruential generator with an inverse-CDF draw for the standard library, Pauli kernels
  and a single-target (controlled) matrix kernel for the dispatcher, and objects whose six
  kernel maps send every operation to kernel 0.
\<close>

definition example_draw :: "real list \<Rightarrow> nat \<Rightarrow> int \<times> nat" where
  "example_draw ws g =
     (if real (g mod 8) * (ws ! 0 + ws ! 1) < 8 * (ws ! 0) then 0 else 1, (5 * g + 3) mod 8)"

definition example_lib :: "nat stdlib" where
  "example_lib = \<lparr>epsilon = 1 / 2 ^ 52, mt19937_64_seed = (\<lambda>v. v mod 8),
                  discrete_distribution = example_draw\<rparr>"

definition flip_index :: "nat \<Rightarrow> nat \<Rightarrow> nat \<Rightarrow> nat" where
  "flip_index n wire i =
     (if wire_bit n wire i = 0 then i + 2 ^ (n - 1 - wire) else i - 2 ^ (n - 1 - wire))"

definition msg_one_wire :: string where
  "msg_one_wire = ''Assertion failed: wires.size() == 1''"

definition example_PauliX :: "nat \<Rightarrow> nat list \<Rightarrow> bool \<Rightarrow> unit kernel_call" where
  "example_PauliX nq wires adj arr =
     (case wires of
        [w] \<Rightarrow> (Inr (), map (\<lambda>i. arr ! flip_index nq w i) [0..<length arr])
      | _ \<Rightarrow> (Inl (LightningException msg_one_wire), arr))"

definition example_PauliY :: "nat \<Rightarrow> nat list \<Rightarrow> bool \<Rightarrow> unit kernel_call" where
  "example_PauliY nq wires adj arr =
     (case wires of
        [w] \<Rightarrow> (Inr (), map (\<lambda>i. (if wire_bit nq w i = 0 then - \<i> else \<i>)
                                    * arr ! flip_index nq w i) [0..<length arr])
      | _ \<Rightarrow> (Inl (LightningException msg_one_wire), arr))"

definition example_PauliZ :: "nat \<Rightarrow> nat list \<Rightarrow> bool \<Rightarrow> unit kernel_call" where
  "example_PauliZ nq wires adj arr =
     (case wires of
        [w] \<Rightarrow> (Inr (), map (\<lambda>i. if wire_bit nq w i = 0 then arr ! i else - (arr ! i))
                           [0..<length arr])
      | _ \<Rightarrow> (Inl (LightningException msg_one_wire), arr))"

definition example_impl :: GateImplementation where
  "example_impl = \<lparr>applyPauliX = example_PauliX, applyPauliY = example_PauliY,
                   applyPauliZ = example_PauliZ\<rparr>"

definition controls_match :: "nat \<Rightarrow> nat list \<Rightarrow> bool list \<Rightarrow> nat \<Rightarrow> bool" where
  "controls_match nq controlled_wires controlled_values i =
     list_all (\<lambda>(c, v). (wire_bit nq c i = 1) = v) (zip controlled_wires controlled_values)"

definition example_matrix ::
  "nat \<Rightarrow> complex list \<Rightarrow> nat list \<Rightarrow> bool list \<Rightarrow> nat list \<Rightarrow> bool \<Rightarrow> unit kernel_call" where
  "example_matrix nq matrix controlled_wires controlled_values wires inverse' arr =
     (case wires of
        [w] \<Rightarrow>
          (let m = (if inverse'
                    then [cnj (matrix ! 0), cnj (matrix ! 2), cnj (matrix ! 1), cnj (matrix ! 3)]
                    else matrix)
           in (Inr (), map (\<lambda>i. if controls_match nq controlled_wires controlled_values i
                                 then let b = wire_bit nq w i;
                                          i0 = (if b = 0 then i else flip_index nq w i);
                                          i1 = (if b = 0 then flip_index nq w i else i)
                                      in m ! (2 * b) * arr ! i0 + m ! (2 * b + 1) * arr ! i1
                                 else arr ! i) [0..<length arr]))
      | _ \<Rightarrow> (Inl (LightningException msg_one_wire), arr))"

definition example_controlled_generator ::
  "nat \<Rightarrow> nat list \<Rightarrow> bool list \<Rightarrow> nat list \<Rightarrow> bool \<Rightarrow> real kernel_call" where
  "example_controlled_generator nq controlled_wires controlled_values wires adj arr =
     (case wires of
        [w] \<Rightarrow> (Inr (- (1 / 2)),
                map (\<lambda>i. if controls_match nq controlled_wires controlled_values i
                          then arr ! flip_index nq w i else 0) [0..<length arr])
      | _ \<Rightarrow> (Inl (LightningException msg_one_wire), arr))"

definition example_dispatcher :: DynamicDispatcher where
  "example_dispatcher =
     \<lparr>str_to_gates = [''PauliX'' \<mapsto> GateOperation 0],
      str_to_controlled_gates = [''PauliX'' \<mapsto> ControlledGateOperation 0],
      str_to_generators = [''RX'' \<mapsto> GeneratorOperation 0],
      str_to_controlled_generators = [''RX'' \<mapsto> ControlledGeneratorOperation 0],
      gate_kernels = (\<lambda>k g nq wires inverse' params. example_PauliX nq wires inverse'),
      generator_kernels = (\<lambda>k g nq wires adj arr. applyGeneratorRX example_impl arr nq wires adj),
      matrix_kernels = (\<lambda>k nq matrix. example_matrix nq matrix [] []),
      controlled_gate_kernels =
        (\<lambda>k g nq controlled_wires controlled_values wires inverse' params.
           example_matrix nq [0, 1, 1, 0] controlled_wires controlled_values wires inverse'),
      controlled_generator_kernels = (\<lambda>k g. example_controlled_generator),
      controlled_matrix_kernels = (\<lambda>k. example_matrix)\<rparr>"

definition example_sv :: "nat \<Rightarrow> buffer \<Rightarrow> nat StateVectorLQubit" where
  "example_sv n arr =
     \<lparr>num_qubits = n, data = arr, rng = 0,
      kernel_for_gates = (\<lambda>_. Some (KernelType 0)),
      kernel_for_generators = (\<lambda>_. Some (KernelType 0)),
      kernel_for_matrices = (\<lambda>_. Some (KernelType 0)),
      kernel_for_controlled_gates = (\<lambda>_. Some (KernelType 0)),
      kernel_for_controlled_generators = (\<lambda>_. Some (KernelType 0)),
      kernel_for_controlled_matrices = (\<lambda>_. Some (KernelType 0))\<rparr>"





text \<open>
  Two objects agree on everything \<open>measure\<close> reads: the buffer, the qubit count, the
  generator and, when the wire is to be reset, the kernels chosen for gates.
\<close>

definition agree :: "bool \<Rightarrow> 'g StateVectorLQubit \<Rightarrow> 'g StateVectorLQubit \<Rightarrow> bool" where
  "agree reset sv1 sv2 \<longleftrightarrow>
     data sv1 = data sv2 \<and> num_qubits sv1 = num_qubits sv2 \<and> rng sv1 = rng sv2 \<and>
     (reset \<longrightarrow> kernel_for_gates sv1 = kernel_for_gates sv2)"

section \<open>The loops of probs, collapse and normalize in closed form\<close>







lemma section_sizes:
  assumes "wire < n"
  shows "((2::nat) ^ n div 2 ^ (n - (1 + wire))) div 2 = 2 ^ wire"
    and "2 * (2::nat) ^ (n - (1 + wire)) * 2 ^ wire = 2 ^ n"
proof -
  have n: "n = (n - (1 + wire)) + (1 + wire)" using assms by simp
  have "(2::nat) ^ n = 2 ^ (n - (1 + wire)) * 2 ^ (1 + wire)"
    by (subst n) (simp only: power_add)
  then show "((2::nat) ^ n div 2 ^ (n - (1 + wire))) div 2 = 2 ^ wire"
    and "2 * (2::nat) ^ (n - (1 + wire)) * 2 ^ wire = 2 ^ n"
    by simp_all
qed




lemma wire_bit_cases: "wire_bit n wire i = 0 \<or> wire_bit n wire i = 1"
  unfolding wire_bit_def by auto



lemma clear_block_length:
  "length (fold (\<lambda>ids a. a[off + ids := (0::complex)]) [0..<s] a) = length a"
  by (induction s) simp_all

lemma clear_block_nth:
  assumes "i < length a"
  shows "(fold (\<lambda>ids a. a[off + ids := (0::complex)]) [0..<s] a) ! i =
     (if off \<le> i \<and> i < off + s then 0 else a ! i)"
proof (induction s)
  case 0
  show ?case by auto
next
  case (Suc s)
  show ?case
    using assms by (cases "i = off + s") (auto simp: Suc.IH clear_block_length nth_list_update)
qed

lemma clear_blocks_length:
  "length (fold (\<lambda>idx. fold (\<lambda>ids a. a[s * (k + 2 * idx) + ids := (0::complex)]) [0..<s]) [0..<h] a)
   = length a"
  by (induction h) (simp_all add: clear_block_length)

lemma clear_blocks_nth:
  assumes "i < length a"
  shows "(fold (\<lambda>idx. fold (\<lambda>ids a. a[s * (k + 2 * idx) + ids := (0::complex)]) [0..<s]) [0..<h] a) ! i =
     (if \<exists>idx<h. s * (k + 2 * idx) \<le> i \<and> i < s * (k + 2 * idx) + s then 0 else a ! i)"
proof (induction h)
  case 0
  show ?case by simp
next
  case (Suc h)
  let ?F = "\<lambda>idx. fold (\<lambda>ids a. a[s * (k + 2 * idx) + ids := (0::complex)]) [0..<s]"
  let ?b = "fold ?F [0..<h] a"
  have len: "i < length ?b" using assms by (simp add: clear_blocks_length)
  have "fold ?F [0..<Suc h] a ! i = ?F h ?b ! i" by simp
  also have "\<dots> = (if s * (k + 2 * h) \<le> i \<and> i < s * (k + 2 * h) + s then 0 else ?b ! i)"
    using len by (simp add: clear_block_nth)
  also have "\<dots> = (if \<exists>idx<Suc h. s * (k + 2 * idx) \<le> i \<and> i < s * (k + 2 * idx) + s then 0 else a ! i)"
    unfolding Suc.IH by (auto simp: less_Suc_eq)
  finally show ?case .
qed

lemma in_block_iff:
  fixes s :: nat
  assumes "0 < s" "k < 2" "i < 2 * s * h"
  shows "(\<exists>idx<h. s * (k + 2 * idx) \<le> i \<and> i < s * (k + 2 * idx) + s) \<longleftrightarrow> (i div s) mod 2 = k"
proof
  assume "\<exists>idx<h. s * (k + 2 * idx) \<le> i \<and> i < s * (k + 2 * idx) + s"
  then obtain idx where idx: "s * (k + 2 * idx) \<le> i" "i < s * (k + 2 * idx) + s" by blast
  have "i div s = k + 2 * idx"
  proof (rule div_nat_eqI)
    show "s * (k + 2 * idx) \<le> i" using idx(1) .
    show "i < s * Suc (k + 2 * idx)" using idx(2) by simp
  qed
  then show "(i div s) mod 2 = k" using assms(2) by simp
next
  assume r: "(i div s) mod 2 = k"
  let ?idx = "(i div s) div 2"
  have q: "i div s = k + 2 * ?idx" using r mult_div_mod_eq[of 2 "i div s"] by simp
  have "i < (2 * h) * s" using assms(3) by (simp add: mult.commute mult.left_commute)
  then have "i div s < 2 * h"
    using assms(1) by (simp add: less_mult_imp_div_less)
  then have "?idx < h" by simp
  moreover have "s * (k + 2 * ?idx) \<le> i"
    unfolding q[symmetric] by simp
  moreover have "i < s * (k + 2 * ?idx) + s"
  proof -
    have "i < s * (i div s) + s" using assms(1) by (metis dividend_less_times_div mult.commute add.commute)
    then show ?thesis unfolding q[symmetric] .
  qed
  ultimately show "\<exists>idx<h. s * (k + 2 * idx) \<le> i \<and> i < s * (k + 2 * idx) + s" by blast
qed

lemma scale_loop:
  "m \<le> length a \<Longrightarrow>
   fold (\<lambda>k a. a[k := a ! k * (c::complex)]) [0..<m] a = map (\<lambda>z. z * c) (take m a) @ drop m a"
proof (induction m)
  case 0
  show ?case by simp
next
  case (Suc m)
  then have m: "m < length a" by simp
  have "fold (\<lambda>k a. a[k := a ! k * c]) [0..<Suc m] a
        = (map (\<lambda>z. z * c) (take m a) @ drop m a)[m := (map (\<lambda>z. z * c) (take m a) @ drop m a) ! m * c]"
    using Suc by simp
  also have "\<dots> = map (\<lambda>z. z * c) (take (Suc m) a) @ drop (Suc m) a"
    using m by (intro nth_equalityI) (auto simp: nth_append nth_list_update take_Suc_conv_app_nth less_Suc_eq)
  finally show ?case .
qed

lemma scale_loop_all:
  "fold (\<lambda>k a. a[k := a ! k * (c::complex)]) [0..<length a] a = map (\<lambda>z. z * c) a"
  using scale_loop[of "length a" a c] by simp


lemma keep_branch_length: "length (keep_branch n wire b arr) = 2 ^ n"
  by (simp add: keep_branch_def)

lemma keep_branch_nth:
  "i < 2 ^ n \<Longrightarrow> keep_branch n wire b arr ! i = (if wire_bit n wire i = b then arr ! i else 0)"
  by (simp add: keep_branch_def)

lemma cleared_is_keep_branch:
  assumes "wire < n" "length arr = 2 ^ n" "k < 2"
  shows "fold (\<lambda>idx. fold (\<lambda>ids a. a[2 ^ (n - (1 + wire)) * (k + 2 * idx) + ids := (0::complex)])
                       [0..<2 ^ (n - (1 + wire))]) [0..<2 ^ wire] arr
         = keep_branch n wire (1 - k) arr"
proof (rule nth_equalityI)
  let ?s = "(2::nat) ^ (n - (1 + wire))"
  let ?c = "fold (\<lambda>idx. fold (\<lambda>ids a. a[?s * (k + 2 * idx) + ids := (0::complex)]) [0..<?s]) [0..<2 ^ wire] arr"
  show "length ?c = length (keep_branch n wire (1 - k) arr)"
    using assms(2) by (simp add: clear_blocks_length keep_branch_length)
  fix i assume "i < length ?c"
  then have i: "i < 2 ^ n" using assms(2) by (simp add: clear_blocks_length)
  then have i': "i < 2 * ?s * 2 ^ wire" using section_sizes(2)[OF assms(1)] by simp
  have ia: "i < length arr" using i assms(2) by simp
  have blk: "(\<exists>idx<2 ^ wire. ?s * (k + 2 * idx) \<le> i \<and> i < ?s * (k + 2 * idx) + ?s)
             \<longleftrightarrow> (i div ?s) mod 2 = k"
    by (rule in_block_iff[OF _ assms(3) i']) simp
  have "?c ! i = (if (i div ?s) mod 2 = k then 0 else arr ! i)"
    by (simp only: clear_blocks_nth[OF ia] blk)
  also have "\<dots> = (if wire_bit n wire i = 1 - k then arr ! i else 0)"
    using assms(3) wire_bit_cases[of n wire i] unfolding wire_bit_def by auto
  finally show "?c ! i = keep_branch n wire (1 - k) arr ! i"
    using i by (simp add: keep_branch_nth)
qed

lemma normalize_data:
  "normalize lib sv =
     (let nrm = sqrt (squaredNorm (data sv) (length (data sv)))
      in if nrm > epsilon lib * 100
         then sv\<lparr>data := map (\<lambda>a. a * complex_of_real (1 / nrm)) (data sv)\<rparr> else sv)"
  by (simp add: normalize_def getLength_def Let_def scale_loop_all)

lemma collapse_data:
  assumes "wire < num_qubits sv" "length (data sv) = 2 ^ num_qubits sv"
  shows "collapse lib wire branch sv =
     (let z = keep_branch (num_qubits sv) wire (if branch then 1 else 0) (data sv);
          nrm = sqrt (squaredNorm z (length z))
      in sv\<lparr>data := (if nrm > epsilon lib * 100
                      then map (\<lambda>a. a * complex_of_real (1 / nrm)) z else z)\<rparr>)"
proof -
  let ?n = "num_qubits sv"
  let ?k = "if branch then 0 else 1 :: nat"
  have k: "?k < 2" by simp
  have c: "fold (\<lambda>idx. fold (\<lambda>ids a. a[2 ^ (?n - (1 + wire)) * (?k + 2 * idx) + ids := (0::complex)])
                       [0..<2 ^ (?n - (1 + wire))]) [0..<2 ^ wire] (data sv)
         = keep_branch ?n wire (1 - ?k) (data sv)"
    by (rule cleared_is_keep_branch[OF assms k])
  have b: "1 - ?k = (if branch then 1 else 0)" by simp
  have "collapse lib wire branch sv = normalize lib (sv\<lparr>data := keep_branch ?n wire (1 - ?k) (data sv)\<rparr>)"
    unfolding collapse_def Let_def section_sizes(1)[OF assms(1)] c ..
  then show ?thesis
    unfolding b normalize_data by (simp add: Let_def)
qed











lemma upt_4: "[0..<4] = [0, 1, 2, 3]"
  by (simp add: upt_rec)

lemma upt_2: "[0..<2] = [0, 1]"
  by (simp add: upt_rec)

lemma sqrt_9_25: "sqrt (9 / 25) = 3 / 5"
  using real_sqrt_abs2[of "3 / 5"] by simp


section \<open>Probabilities of one wire\<close>



section \<open>Collapse\<close>

text \<open>
  C4. For every wire below the qubit count and either branch, \<open>collapse(wire, branch)\<close>
  replaces by zero exactly the amplitudes whose label differs from the branch, and then
  multiplies every amplitude by the reciprocal of the norm of that buffer if and only if
  the norm exceeds 100 times epsilon; otherwise the zeroed buffer is left as it is. The
  call has no failing path.
\<close>

theorem collapse_zeroes_then_rescales:
  assumes "wire < num_qubits sv" and "length (data sv) = 2 ^ num_qubits sv"
  shows "collapse lib wire branch sv =
     (let z = keep_branch (num_qubits sv) wire (if branch then 1 else 0) (data sv);
          nrm = sqrt (squaredNorm z (length z))
      in sv\<lparr>data := (if nrm > epsilon lib * 100
                      then map (\<lambda>a. a * complex_of_real (1 / nrm)) z else z)\<rparr>)"
  by (rule collapse_data[OF assms])

text \<open>
  Above the guard: \<open>(3/5, 4/5)\<close> collapsed to branch 0 becomes \<open>(1, 0)\<close>. Below it:
  \<open>(0, 2^-60)\<close> collapsed to branch 1 stays as it is.
\<close>

theorem collapse_zeroes_then_rescales_witness:
  "(0::nat) < num_qubits (example_sv 1 [3/5, 4/5]) \<and>
   length (data (example_sv 1 [3/5, 4/5])) = 2 ^ num_qubits (example_sv 1 [3/5, 4/5]) \<and>
   collapse example_lib 0 False (example_sv 1 [3/5, 4/5]) = example_sv 1 [1, 0] \<and>
   collapse example_lib 0 True (example_sv 1 [0, 1 / 2 ^ 60]) = example_sv 1 [0, 1 / 2 ^ 60]"
  using collapse_zeroes_then_rescales[of 0 "example_sv 1 [3/5, 4/5]" example_lib False]
    collapse_zeroes_then_rescales[of 0 "example_sv 1 [0, 1 / 2 ^ 60]" example_lib True]
  by (simp add: example_sv_def example_lib_def keep_branch_def wire_bit_def std_norm_def
      squaredNorm_def upt_2 sqrt_9_25 real_sqrt_divide real_sqrt_power[symmetric])




lemma replicate_basis_cleared:
  "(replicate n (0::complex))[0 := 0] = replicate n 0"
  by (cases n) simp_all

lemma replicate_2: "replicate 2 x = [x, x]"
  by (simp add: numeral_2_eq_2)

section \<open>Measurement with postselection\<close>

text \<open>
  C1, as the code has it. For every wire below the qubit count and a postselect value of 0
  or 1: when the drawn sample differs from the postselect value, \<open>measure\<close> returns -1 and
  leaves every amplitude zero, the one at index 0 included, because the amplitude that
  \<open>setBasisState(0)\<close> has just set to 1 is overwritten with 0; the generator has advanced
  by the draw.
\<close>

theorem measure_postselect_mismatch:
  assumes "wire < num_qubits sv" and "length (data sv) = 2 ^ num_qubits sv"
    and "postselect = 0 \<or> postselect = 1"
    and "fst (random_sample lib (probs sv wire ! 0) sv) \<noteq> postselect"
  shows "measure lib d wire postselect reset sv =
           (Inr (- 1),
            (snd (random_sample lib (probs sv wire ! 0) sv))\<lparr>data := replicate (2 ^ num_qubits sv) 0\<rparr>)"
proof -
  obtain x g where dr: "discrete_distribution lib [probs sv wire ! 0, 1 - probs sv wire ! 0] (rng sv) = (x, g)"
    by (cases "discrete_distribution lib [probs sv wire ! 0, 1 - probs sv wire ! 0] (rng sv)")
  have rs: "random_sample lib (probs sv wire ! 0) sv = (x, sv\<lparr>rng := g\<rparr>)"
    by (simp add: random_sample_def dr)
  have ps: "postselect \<noteq> - 1" using assms(3) by auto
  have ne: "postselect \<noteq> x" using assms(4) rs by simp
  show ?thesis
    unfolding measure_def Let_def rs
    using ps ne assms(2)
    by (simp add: setBasisState_def replicate_basis_cleared)
qed


text \<open>
  The basis state \<open>(1, 0)\<close> measured on wire 0 with postselect 1: the sample is 0.
\<close>

theorem measure_postselect_mismatch_witness:
  "(0::nat) < num_qubits (example_sv 1 [1, 0]) \<and>
   length (data (example_sv 1 [1, 0])) = 2 ^ num_qubits (example_sv 1 [1, 0]) \<and>
   fst (random_sample example_lib (probs (example_sv 1 [1, 0]) 0 ! 0) (example_sv 1 [1, 0])) \<noteq> 1 \<and>
   measure example_lib example_dispatcher 0 1 False (example_sv 1 [1, 0])
     = (Inr (- 1), (example_sv 1 [0, 0])\<lparr>rng := 3\<rparr>)"
  using measure_postselect_mismatch[of 0 "example_sv 1 [1, 0]" 1 example_lib example_dispatcher False]
  by (simp add: example_sv_def example_lib_def probs_def random_sample_def example_draw_def
      std_norm_def upt_2 Let_def replicate_2)

text \<open>
  At the same input the amplitude at index 0 is not 1 after the call, so the buffer is not
  the basis state at index 0.
\<close>

theorem measure_postselect_mismatch_counterexample:
  "fst (random_sample example_lib (probs (example_sv 1 [1, 0]) 0 ! 0) (example_sv 1 [1, 0])) \<noteq> 1 \<and>
   fst (measure example_lib example_dispatcher 0 1 False (example_sv 1 [1, 0])) = Inr (- 1) \<and>
   data (snd (measure example_lib example_dispatcher 0 1 False (example_sv 1 [1, 0]))) ! 0 \<noteq> 1"
  by (simp add: measure_def example_sv_def example_lib_def probs_def random_sample_def
      example_draw_def setBasisState_def std_norm_def upt_2 Let_def)


section \<open>Sampling under a fixed seed\<close>

lemma sqrt_16_25: "sqrt (16 / 25) = 4 / 5"
  using real_sqrt_abs2[of "4 / 5"] by simp

lemma probs_agree:
  "data sv1 = data sv2 \<Longrightarrow> num_qubits sv1 = num_qubits sv2 \<Longrightarrow> probs sv1 wire = probs sv2 wire"
  by (simp add: probs_def)

lemma collapse_agree:
  assumes "data sv1 = data sv2" and "num_qubits sv1 = num_qubits sv2"
  shows "data (collapse lib wire branch sv1) = data (collapse lib wire branch sv2)"
    and "num_qubits (collapse lib wire branch sv1) = num_qubits sv1"
    and "num_qubits (collapse lib wire branch sv2) = num_qubits sv2"
    and "rng (collapse lib wire branch sv) = rng sv"
    and "kernel_for_gates (collapse lib wire branch sv) = kernel_for_gates sv"
  using assms by (simp_all add: collapse_def normalize_def getLength_def Let_def)

lemma applyOperation_agree:
  assumes "data sv1 = data sv2" and "num_qubits sv1 = num_qubits sv2"
    and "kernel_for_gates sv1 = kernel_for_gates sv2"
  shows "fst (applyOperation d opName wires inverse' params sv1)
           = fst (applyOperation d opName wires inverse' params sv2)"
    and "data (snd (applyOperation d opName wires inverse' params sv1))
           = data (snd (applyOperation d opName wires inverse' params sv2))"
    and "num_qubits (snd (applyOperation d opName wires inverse' params sv)) = num_qubits sv"
    and "rng (snd (applyOperation d opName wires inverse' params sv)) = rng sv"
    and "kernel_for_gates (snd (applyOperation d opName wires inverse' params sv)) = kernel_for_gates sv"
  using assms
  by (auto simp: applyOperation_def on_data_def split: sum.splits prod.splits)

lemma measure_agree:
  assumes "agree reset sv1 sv2"
  shows "fst (measure lib d wire postselect reset sv1) = fst (measure lib d wire postselect reset sv2) \<and>
         agree reset (snd (measure lib d wire postselect reset sv1))
                     (snd (measure lib d wire postselect reset sv2))"
proof -
  have a: "data sv1 = data sv2" "num_qubits sv1 = num_qubits sv2" "rng sv1 = rng sv2"
    "reset \<Longrightarrow> kernel_for_gates sv1 = kernel_for_gates sv2"
    using assms by (simp_all add: agree_def)
  let ?p = "probs sv1 wire ! 0"
  have p: "probs sv2 wire = probs sv1 wire" using probs_agree[OF a(1,2)] by simp
  obtain x g where dr: "discrete_distribution lib [?p, 1 - ?p] (rng sv1) = (x, g)"
    by (cases "discrete_distribution lib [?p, 1 - ?p] (rng sv1)")
  have r1: "random_sample lib ?p sv1 = (x, sv1\<lparr>rng := g\<rparr>)"
    and r2: "random_sample lib ?p sv2 = (x, sv2\<lparr>rng := g\<rparr>)"
    using dr a(3) by (simp_all add: random_sample_def)
  let ?c1 = "collapse lib wire (x \<noteq> 0) (sv1\<lparr>rng := g\<rparr>)"
  let ?c2 = "collapse lib wire (x \<noteq> 0) (sv2\<lparr>rng := g\<rparr>)"
  have c: "data ?c1 = data ?c2" "num_qubits ?c1 = num_qubits ?c2" "rng ?c1 = rng ?c2"
    "reset \<Longrightarrow> kernel_for_gates ?c1 = kernel_for_gates ?c2"
    using a by (simp_all add: collapse_def normalize_def getLength_def Let_def)
  show ?thesis
  proof (cases "postselect \<noteq> - 1 \<and> postselect \<noteq> x")
    case True
    then show ?thesis
      unfolding measure_def Let_def p r1 r2 using a
      by (simp add: setBasisState_def agree_def)
  next
    case False
    show ?thesis
    proof (cases "reset \<and> x = 1")
      case True
      then have k: "kernel_for_gates ?c1 = kernel_for_gates ?c2" using c(4) by simp
      note ao = applyOperation_agree[OF c(1,2) k, of d "''PauliX''" "[wire]" False "[]"]
      obtain o1 s1 where m1: "applyOperation d ''PauliX'' [wire] False [] ?c1 = (o1, s1)"
        by (cases "applyOperation d ''PauliX'' [wire] False [] ?c1")
      obtain o2 s2 where m2: "applyOperation d ''PauliX'' [wire] False [] ?c2 = (o2, s2)"
        by (cases "applyOperation d ''PauliX'' [wire] False [] ?c2")
      have e1: "o1 = o2" "data s1 = data s2"
        using ao(1,2) m1 m2 by simp_all
      have "num_qubits s1 = num_qubits ?c1" "num_qubits s2 = num_qubits ?c2"
        "rng s1 = rng ?c1" "rng s2 = rng ?c2"
        "kernel_for_gates s1 = kernel_for_gates ?c1" "kernel_for_gates s2 = kernel_for_gates ?c2"
        using ao(3)[of ?c1] ao(3)[of ?c2] ao(4)[of ?c1] ao(4)[of ?c2] ao(5)[of ?c1] ao(5)[of ?c2]
          m1 m2 by simp_all
      then have e: "o1 = o2" "data s1 = data s2" "num_qubits s1 = num_qubits s2" "rng s1 = rng s2"
        "kernel_for_gates s1 = kernel_for_gates s2"
        using e1 c(2,3) k by simp_all
      show ?thesis
        unfolding measure_def Let_def p r1 r2 using False True e m1 m2
        by (auto simp: agree_def split: sum.splits)
    next
      case nr: False
      show ?thesis
        unfolding measure_def Let_def p r1 r2 using False nr c
        by (auto simp: agree_def)
    qed
  qed
qed

lemma measure_repeatedly_agree:
  "agree reset sv1 sv2 \<Longrightarrow>
   fst (measure_repeatedly lib d wire postselect reset n sv1)
     = fst (measure_repeatedly lib d wire postselect reset n sv2)"
proof (induction n arbitrary: sv1 sv2)
  case 0
  show ?case by simp
next
  case (Suc n)
  from measure_agree[OF Suc.prems, of lib d wire postselect]
  have o: "fst (measure lib d wire postselect reset sv1) = fst (measure lib d wire postselect reset sv2)"
    and s: "agree reset (snd (measure lib d wire postselect reset sv1))
                        (snd (measure lib d wire postselect reset sv2))"
    by simp_all
  from Suc.IH[OF s] o show ?case
    by (simp add: split_beta)
qed

text \<open>
  C9. Two objects holding the same amplitude buffer (and qubit count), each seeded with
  the same value, produce the same sequence of outcomes from repeated calls of \<open>measure\<close>
  on the same wire, whatever their generators held before and whatever their other fields
  are; when the calls reset the wire, the two objects must also have chosen the same gate
  kernels, since the reset runs the PauliX kernel of the object.
\<close>

theorem seeded_sampling_deterministic:
  assumes "wire < num_qubits sv1" and "length (data sv1) = 2 ^ num_qubits sv1"
    and "data sv1 = data sv2" and "num_qubits sv1 = num_qubits sv2"
    and "reset \<longrightarrow> kernel_for_gates sv1 = kernel_for_gates sv2"
  shows "fst (measure_repeatedly lib d wire postselect reset n (seed lib v sv1))
       = fst (measure_repeatedly lib d wire postselect reset n (seed lib v sv2))"
proof -
  have "agree reset (seed lib v sv1) (seed lib v sv2)"
    using assms(3-5) by (simp add: agree_def seed_def)
  then show ?thesis
    by (rule measure_repeatedly_agree)
qed


text \<open>
  Two objects with the buffer \<open>(3/5, 4/5)\<close> that differ in generator and matrix kernels:
  seeded with 7, both yield the samples 1, 1.
\<close>

theorem seeded_sampling_deterministic_witness:
  "(0::nat) < num_qubits (example_sv 1 [3/5, 4/5]) \<and>
   length (data (example_sv 1 [3/5, 4/5])) = 2 ^ num_qubits (example_sv 1 [3/5, 4/5]) \<and>
   data (example_sv 1 [3/5, 4/5]) = data ((example_sv 1 [3/5, 4/5])\<lparr>rng := 5, kernel_for_matrices := Map.empty\<rparr>) \<and>
   num_qubits (example_sv 1 [3/5, 4/5]) = num_qubits ((example_sv 1 [3/5, 4/5])\<lparr>rng := 5, kernel_for_matrices := Map.empty\<rparr>) \<and>
   fst (measure_repeatedly example_lib example_dispatcher 0 (- 1) False 2 (seed example_lib 7 (example_sv 1 [3/5, 4/5])))
   = fst (measure_repeatedly example_lib example_dispatcher 0 (- 1) False 2
           (seed example_lib 7 ((example_sv 1 [3/5, 4/5])\<lparr>rng := 5, kernel_for_matrices := Map.empty\<rparr>))) \<and>
   fst (measure_repeatedly example_lib example_dispatcher 0 (- 1) False 2 (seed example_lib 7 (example_sv 1 [3/5, 4/5])))
   = [Inr 1, Inr 1]"
proof -
  have m1: "measure example_lib example_dispatcher 0 (- 1) False (seed example_lib 7 (example_sv 1 [3/5, 4/5]))
        = (Inr 1, (example_sv 1 [0, 1])\<lparr>rng := 6\<rparr>)"
    by (simp add: measure_def Let_def seed_def example_sv_def example_lib_def probs_def random_sample_def
        example_draw_def std_norm_def upt_2 collapse_def normalize_def squaredNorm_def getLength_def
        real_sqrt_divide sqrt_16_25)
  have m2: "measure example_lib example_dispatcher 0 (- 1) False ((example_sv 1 [0, 1])\<lparr>rng := 6\<rparr>)
        = (Inr 1, (example_sv 1 [0, 1])\<lparr>rng := 1\<rparr>)"
    by (simp add: measure_def Let_def seed_def example_sv_def example_lib_def probs_def random_sample_def
        example_draw_def std_norm_def upt_2 collapse_def normalize_def squaredNorm_def getLength_def)
  have "measure_repeatedly example_lib example_dispatcher 0 (- 1) False (Suc (Suc 0)) (seed example_lib 7 (example_sv 1 [3/5, 4/5]))
        = ([Inr 1, Inr 1], (example_sv 1 [0, 1])\<lparr>rng := 1\<rparr>)"
    by (simp only: measure_repeatedly.simps m1 m2 prod.case)
  then have "fst (measure_repeatedly example_lib example_dispatcher 0 (- 1) False 2 (seed example_lib 7 (example_sv 1 [3/5, 4/5])))
        = [Inr 1, Inr 1]"
    by (simp only: numeral_2_eq_2 fst_conv)
  then show ?thesis
    using seeded_sampling_deterministic[of 0 "example_sv 1 [3/5, 4/5]"
      "(example_sv 1 [3/5, 4/5])\<lparr>rng := 5, kernel_for_matrices := Map.empty\<rparr>" False
      example_lib example_dispatcher "- 1" 2 7]
    by (simp add: example_sv_def)
qed

section \<open>Dispatch: generators, matrices and controlled calls\<close>

lemma on_data_failed [simp]: "on_data (\<lambda>arr. (Inl e, arr)) sv = (Inl e, sv)"
  by (simp add: on_data_def)

text \<open>
  C7. For every buffer, qubit count, wire list and adjoint flag, the generators of RX, RY
  and RZ return exactly the constant -1/2 whenever the Pauli kernel of the gate
  implementation returns, whatever the buffer holds; they pass on the kernel's abort
  otherwise.
\<close>

theorem pauli_generators_return_minus_half:
  "fst (applyGeneratorRX impl arr nq wires adj)
     = (case fst (applyPauliX impl nq wires adj arr) of Inl e \<Rightarrow> Inl e | Inr u \<Rightarrow> Inr (- (1 / 2))) \<and>
   fst (applyGeneratorRY impl arr nq wires adj)
     = (case fst (applyPauliY impl nq wires adj arr) of Inl e \<Rightarrow> Inl e | Inr u \<Rightarrow> Inr (- (1 / 2))) \<and>
   fst (applyGeneratorRZ impl arr nq wires adj)
     = (case fst (applyPauliZ impl nq wires adj arr) of Inl e \<Rightarrow> Inl e | Inr u \<Rightarrow> Inr (- (1 / 2)))"
  by (simp add: applyGeneratorRX_def applyGeneratorRY_def applyGeneratorRZ_def
      split: prod.splits sum.splits)

theorem pauli_generators_return_minus_half_witness:
  "fst (applyGeneratorRX example_impl [1, 0] 1 [0] False) = Inr (- (1 / 2)) \<and>
   fst (applyGeneratorRY example_impl [0, 1] 1 [0] True) = Inr (- (1 / 2)) \<and>
   fst (applyGeneratorRZ example_impl [3/5, 4/5] 1 [0] False) = Inr (- (1 / 2))"
  using pauli_generators_return_minus_half[of example_impl "[1, 0]" 1 "[0]" False]
    pauli_generators_return_minus_half[of example_impl "[0, 1]" 1 "[0]" True]
    pauli_generators_return_minus_half[of example_impl "[3/5, 4/5]" 1 "[0]" False]
  by (simp add: example_impl_def example_PauliX_def example_PauliY_def example_PauliZ_def)

lemma applyGenerator_passes_scalar:
  assumes "str_to_generators d opName = Some gen_op"
    and "kernel_for_generators sv gen_op = Some kern"
    and "generator_kernels d kern gen_op = (\<lambda>nq wires adj arr. applyGeneratorRX impl arr nq wires adj)"
  shows "fst (applyGenerator d opName wires adj sv)
     = (case fst (applyPauliX impl (num_qubits sv) wires adj (data sv)) of
          Inl e \<Rightarrow> Inl e | Inr u \<Rightarrow> Inr (- (1 / 2)))"
  using assms
  by (simp add: applyGenerator_def strToGeneratorOp_def resolve_def map_at_def on_data_def
      dispatcher_applyGenerator_def applyGeneratorRX_def split: prod.splits sum.splits)

text \<open>
  C10, as the code has it. With an empty wire list every \<open>applyMatrix\<close> overload and both
  \<open>applyControlledMatrix\<close> overloads abort and leave the object as it was. The message is
  "Number of wires must be larger than 0" for the pointer overloads of \<open>applyMatrix\<close>, for
  both overloads of \<open>applyControlledMatrix\<close>, and for the vector overloads of
  \<open>applyMatrix\<close> when the matrix has exactly one element; a vector overload of
  \<open>applyMatrix\<close> given a matrix of any other size aborts with the matrix-size message,
  since it compares the size with \<open>exp2(0) = 1\<close> first.
\<close>

theorem empty_wires_rejected:
  "applyMatrix_kernel d kern matrix [] inverse' sv = (Inl (LightningException msg_no_wires), sv) \<and>
   applyMatrix d matrix [] inverse' sv = (Inl (LightningException msg_no_wires), sv) \<and>
   applyControlledMatrix d matrix controlled_wires controlled_values [] inverse' sv
     = (Inl (LightningException msg_no_wires), sv) \<and>
   applyControlledMatrix_vector d matrix controlled_wires controlled_values [] inverse' sv
     = (Inl (LightningException msg_no_wires), sv) \<and>
   applyMatrix_kernel_vector d kern matrix [] inverse' sv
     = (Inl (LightningException (if length matrix = 1 then msg_no_wires else msg_matrix_size)), sv) \<and>
   applyMatrix_vector d matrix [] inverse' sv
     = (Inl (LightningException (if length matrix = 1 then msg_no_wires else msg_matrix_size)), sv)"
  by (simp add: applyMatrix_kernel_def applyMatrix_def applyControlledMatrix_def
      applyControlledMatrix_vector_def applyMatrix_kernel_vector_def applyMatrix_vector_def exp2_def)

theorem empty_wires_rejected_witness:
  "applyMatrix example_dispatcher [1, 0, 0, 1] [] False (example_sv 1 [1, 0])
     = (Inl (LightningException msg_no_wires), example_sv 1 [1, 0]) \<and>
   applyMatrix_vector example_dispatcher [1] [] False (example_sv 1 [1, 0])
     = (Inl (LightningException msg_no_wires), example_sv 1 [1, 0]) \<and>
   applyMatrix_kernel_vector example_dispatcher (KernelType 0) [1, 0, 0, 1] [] False (example_sv 1 [1, 0])
     = (Inl (LightningException msg_matrix_size), example_sv 1 [1, 0])"
  using empty_wires_rejected[of example_dispatcher "KernelType 0" "[1, 0, 0, 1]" False "example_sv 1 [1, 0]" "[]" "[]"]
    empty_wires_rejected[of example_dispatcher "KernelType 0" "[1]" False "example_sv 1 [1, 0]" "[]" "[]"]
  by simp

text \<open>
  A four-element matrix with no wires: the abort carries the matrix-size message, not the
  message about the number of wires.
\<close>

theorem empty_wires_rejected_counterexample:
  "applyMatrix_vector example_dispatcher [1, 0, 0, 1] [] False (example_sv 1 [1, 0])
     = (Inl (LightningException msg_matrix_size), example_sv 1 [1, 0]) \<and>
   msg_matrix_size \<noteq> msg_no_wires"
  by (simp add: applyMatrix_vector_def exp2_def msg_matrix_size_def msg_no_wires_def)






text \<open>
  C2, as the code has it. An \<open>applyOperation\<close> call that receives a matrix together with
  a non-empty list of control wires never reads the matrix: it is the named controlled
  call, so a name without a controlled operation fails with the unknown-operation error
  and leaves the object unchanged. The controlled-matrix path is the one of
  \<open>applyControlledMatrix\<close>, which picks the kernel by the number of target wires: one wire
  the single-qubit controlled-matrix operation, two wires the two-qubit one, three or more
  the multi-qubit one.
\<close>

theorem controlled_calls_routing:
  "(controlled_wires \<noteq> [] \<longrightarrow>
      applyOperation_controlled_matrix d opName controlled_wires controlled_values wires inverse'
          params matrix sv
        = applyOperation_controlled d opName controlled_wires controlled_values wires inverse'
            params sv) \<and>
   (controlled_wires \<noteq> [] \<and> length controlled_wires = length controlled_values \<and>
    str_to_controlled_gates d opName = None \<longrightarrow>
      applyOperation_controlled_matrix d opName controlled_wires controlled_values wires inverse'
          params matrix sv
        = (Inl UnknownOperation, sv)) \<and>
   (wires \<noteq> [] \<and> length controlled_wires = length controlled_values \<longrightarrow>
      applyControlledMatrix d matrix controlled_wires controlled_values wires inverse' sv
        = (case kernel_for_controlled_matrices sv
                  (if length wires = 1 then NCSingleQubitOp
                   else if length wires = 2 then NCTwoQubitOp
                   else NCMultiQubitOp) of
             None \<Rightarrow> (Inl std_out_of_range, sv)
           | Some kern \<Rightarrow>
               on_data (controlled_matrix_kernels d kern (num_qubits sv) matrix controlled_wires
                          controlled_values wires inverse') sv))"
  by (auto simp: applyOperation_controlled_matrix_def applyOperation_controlled_def
      applyControlledMatrix_def strToControlledGateOp_def resolve_def map_at_def Let_def
      dispatcher_applyControlledMatrix_def split: option.splits)

theorem controlled_calls_routing_witness:
  "[0::nat] \<noteq> [] \<and> length [0::nat] = length [True] \<and> [1::nat] \<noteq> [] \<and>
   str_to_controlled_gates example_dispatcher ''QubitUnitary'' = None \<and>
   applyOperation_controlled_matrix example_dispatcher ''QubitUnitary'' [0] [True] [1] False []
       [0, 1, 1, 0] (example_sv 2 [0, 0, 1, 0])
     = (Inl UnknownOperation, example_sv 2 [0, 0, 1, 0]) \<and>
   applyControlledMatrix example_dispatcher [0, 1, 1, 0] [0] [True] [1] False (example_sv 2 [0, 0, 1, 0])
     = (Inr (), example_sv 2 [0, 0, 0, 1])"
proof -
  note t = controlled_calls_routing[of "[0]" example_dispatcher "''QubitUnitary''" "[True]" "[1]"
      False "[]" "[0, 1, 1, 0]" "example_sv 2 [0, 0, 1, 0]"]
  have h: "str_to_controlled_gates example_dispatcher ''QubitUnitary'' = None"
    by (simp add: example_dispatcher_def)
  have a: "applyOperation_controlled_matrix example_dispatcher ''QubitUnitary'' [0] [True] [1] False []
       [0, 1, 1, 0] (example_sv 2 [0, 0, 1, 0]) = (Inl UnknownOperation, example_sv 2 [0, 0, 1, 0])"
    using t[THEN conjunct2, THEN conjunct1] h by simp
  have k: "kernel_for_controlled_matrices (example_sv 2 [0, 0, 1, 0]) NCSingleQubitOp = Some (KernelType 0)"
    by (simp add: example_sv_def)
  have "applyControlledMatrix example_dispatcher [0, 1, 1, 0] [0] [True] [1] False (example_sv 2 [0, 0, 1, 0])
      = on_data (controlled_matrix_kernels example_dispatcher (KernelType 0)
                   (num_qubits (example_sv 2 [0, 0, 1, 0])) [0, 1, 1, 0] [0] [True] [1] False)
          (example_sv 2 [0, 0, 1, 0])"
    using t[THEN conjunct2, THEN conjunct2] k by simp
  also have "\<dots> = (Inr (), example_sv 2 [0, 0, 0, 1])"
    by (simp add: example_dispatcher_def example_sv_def on_data_def example_matrix_def
        controls_match_def wire_bit_def flip_index_def upt_4 Let_def)
  finally show ?thesis using a h by simp
qed

text \<open>
  A controlled-X matrix under the name "QubitUnitary", which is no controlled gate: the
  call is not the controlled-matrix call on the same arguments.
\<close>

theorem controlled_calls_routing_counterexample:
  "[0::nat] \<noteq> [] \<and>
   str_to_controlled_gates example_dispatcher ''QubitUnitary'' = None \<and>
   applyOperation_controlled_matrix example_dispatcher ''QubitUnitary'' [0] [True] [1] False []
       [0, 1, 1, 0] (example_sv 2 [0, 0, 1, 0])
     \<noteq> applyControlledMatrix_vector example_dispatcher [0, 1, 1, 0] [0] [True] [1] False
         (example_sv 2 [0, 0, 1, 0])"
  by (simp add: applyOperation_controlled_matrix_def applyOperation_controlled_def
      applyControlledMatrix_vector_def applyControlledMatrix_def strToControlledGateOp_def
      resolve_def map_at_def dispatcher_applyControlledMatrix_def
      example_dispatcher_def example_sv_def on_data_def example_matrix_def Let_def)

text \<open>
  The vector overloads of \<open>applyMatrix\<close> compare the matrix size with
  \<open>exp2(2 * wires.size())\<close> before anything else.
\<close>

lemma applyMatrix_size_mismatch:
  assumes "length matrix \<noteq> 2 ^ (2 * length wires)"
  shows "applyMatrix_vector d matrix wires inverse' sv = (Inl (LightningException msg_matrix_size), sv)"
    and "applyMatrix_kernel_vector d kern matrix wires inverse' sv
           = (Inl (LightningException msg_matrix_size), sv)"
  using assms by (simp_all add: applyMatrix_vector_def applyMatrix_kernel_vector_def exp2_def)

text \<open>
  C5. The vector overload of \<open>applyControlledMatrix\<close> makes no such comparison. Given a
  16-element matrix for one target wire it reaches the kernel, which reads the first four
  elements and changes the buffer, where \<open>applyMatrix\<close> on the same matrix and wire
  aborts with the matrix-size message.
\<close>

theorem applyControlledMatrix_skips_size_check:
  "length [1, 0, 0, 0, 0, 1, 0, 0, 0, 0, 0, 1, 0, 0, 1, 0 :: complex] \<noteq> exp2 (2 * length [1::nat]) \<and>
   applyControlledMatrix_vector example_dispatcher [1, 0, 0, 0, 0, 1, 0, 0, 0, 0, 0, 1, 0, 0, 1, 0]
       [0] [True] [1] False (example_sv 2 [0, 0, 0, 1])
     = (Inr (), example_sv 2 [0, 0, 0, 0]) \<and>
   applyMatrix_vector example_dispatcher [1, 0, 0, 0, 0, 1, 0, 0, 0, 0, 0, 1, 0, 0, 1, 0] [1] False
       (example_sv 2 [0, 0, 0, 1])
     = (Inl (LightningException msg_matrix_size), example_sv 2 [0, 0, 0, 1])"
  by (simp add: applyControlledMatrix_vector_def applyControlledMatrix_def map_at_def
      dispatcher_applyControlledMatrix_def applyMatrix_vector_def exp2_def
      example_dispatcher_def example_sv_def on_data_def example_matrix_def Let_def
      controls_match_def wire_bit_def flip_index_def upt_4)

end
